theory Spec2Isabelle
  imports Main "HOL-Library.Word" "HOL-Library.Char_ord" "HOL-Library.List_Lexorder"
begin

section \<open>Channels of the update service (pkg/api/channels.go)\<close>

text \<open>
  The file channels.go is a thin layer over a relational store: every function issues one
  or more statements through the handle \<open>api.dbR\<close> and turns what comes back into a Go
  result. The embedding keeps the Go functions as they are written and makes the store
  explicit: the tables are lists of rows, and what the environment does before each
  statement (nothing, a failure of the statement, a commit of another session) is read
  from a script carried by the receiver.
\<close>

subsection \<open>Data\<close>

text \<open>
  \<open>Arch\<close> is declared outside channels.go; here it is an opaque number, and its method
  \<open>IsValid\<close> is a parameter of the functions that call it. Timestamps are numbers.
\<close>

type_synonym Arch = nat

text \<open>
  The errors channels.go returns. \<open>ErrInvalidPackage\<close> and \<open>ErrBlacklistedChannel\<close> are
  declared in the file; \<open>ErrInvalidArch\<close>, \<open>ErrArchMismatch\<close> and \<open>ErrNoRowsAffected\<close> are
  used by it. \<open>ErrNotFound\<close> is what the store library returns when a query for one
  struct finds no row, \<open>ErrStore\<close> any other failure of a statement.
\<close>

datatype error =
    ErrInvalidPackage
  | ErrBlacklistedChannel
  | ErrInvalidArch
  | ErrArchMismatch
  | ErrNoRowsAffected
  | ErrNotFound
  | ErrStore

text \<open>The library's nullable string: \<open>Valid\<close> is false for the store's null.\<close>

record NullString =
  String :: string
  Valid :: bool

text \<open>
  Modelled from the spec: the struct \<open>Package\<close> is declared outside channels.go. The spec
  gives a package an identifier, an owning application, an architecture, a version, an
  artifact reference and the channel identifiers on which it is blacklisted;
  channels.go reads \<open>ApplicationID\<close>, \<open>Arch\<close>, \<open>ChannelsBlacklist\<close> and \<open>Version\<close>.
\<close>

record Package =
  ID :: string
  ApplicationID :: string
  Arch :: Arch
  Version :: string
  URL :: string
  ChannelsBlacklist :: "string list"

text \<open>The struct \<open>Channel\<close> of channels.go, field by field.\<close>

record Channel =
  ID :: string
  Name :: string
  Color :: string
  CreatedTs :: nat
  ApplicationID :: string
  PackageID :: NullString
  Package :: "Package option"
  Arch :: Arch

text \<open>
  A row of the table \<open>channel\<close>: the columns named by the \<open>db\<close> tags of the struct. The
  tag \<open>package\<close> is no column: it is filled by the sub-query of \<open>channelsQuery\<close>.
\<close>

record channel_row =
  row_id :: string
  row_name :: string
  row_color :: string
  row_created_ts :: nat
  row_application_id :: string
  row_package_id :: "string option"
  row_arch :: Arch

text \<open>
  The constants \<open>activityChannelPackageUpdated\<close> and \<open>activityInfo\<close> are declared outside
  channels.go; the other classes and severities are not used by it.
\<close>

datatype activity_class = activityChannelPackageUpdated | activityClassOther nat

datatype activity_severity = activityInfo | activitySeverityOther nat

record Activity =
  Class :: activity_class
  Severity :: activity_severity
  ActivityVersion :: string
  ActivityApplicationID :: string
  ActivityChannelID :: string

subsection \<open>The store\<close>

record db =
  channel_tbl :: "channel_row list"
  package_tbl :: "Package list"
  activity_tbl :: "Activity list"

text \<open>
  What the environment does before a statement of this session runs: nothing, make the
  statement fail, or commit the work of another session first.
\<close>

datatype event = Proceed | Fault | Interfere "db \<Rightarrow> db"

text \<open>
  The receiver \<open>api\<close>: its store handle \<open>dbR\<close>, and the script of the events to come. An
  empty script is a store that is left alone and does not fail.
\<close>

record API =
  dbR :: db
  pending :: "event list"

text \<open>
  The start of a statement: the commits of other sessions are applied, then the
  statement runs (\<open>True\<close>) or fails (\<open>False\<close>). The statement sees the tables returned.
\<close>

fun env :: "event list \<Rightarrow> db \<Rightarrow> bool \<times> db \<times> event list" where
  "env [] d = (True, d, [])"
| "env (Proceed # es) d = (True, d, es)"
| "env (Fault # es) d = (False, d, es)"
| "env (Interfere f # es) d = env es (f d)"

definition stmt :: "API \<Rightarrow> bool \<times> API" where
  "stmt api =
     (case env (pending api) (dbR api) of
        (ok, d, es) \<Rightarrow> (ok, api\<lparr>dbR := d, pending := es\<rparr>))"

text \<open>The column written for a nullable string, and the nullable string read from a column.\<close>

definition to_column :: "NullString \<Rightarrow> string option" where
  "to_column ns = (if Valid ns then Some (String ns) else None)"

definition of_column :: "string option \<Rightarrow> NullString" where
  "of_column c =
     (case c of None \<Rightarrow> \<lparr>String = [], Valid = False\<rparr>
              | Some s \<Rightarrow> \<lparr>String = s, Valid = True\<rparr>)"

text \<open>
  Modelled from the spec: \<open>GetPackage\<close> is declared outside channels.go. The spec has it
  return the package row of the identifier as it is at read time; a missing row is the
  library's \<open>ErrNotFound\<close>.
\<close>

definition GetPackage :: "API \<Rightarrow> string \<Rightarrow> (error + Package) \<times> API" where
  "GetPackage api packageID =
     (case stmt api of
        (False, api') \<Rightarrow> (Inl ErrStore, api')
      | (True, api') \<Rightarrow>
          (case find (\<lambda>p. Package.ID p = packageID) (package_tbl (dbR api')) of
             None \<Rightarrow> (Inl ErrNotFound, api')
           | Some pkg \<Rightarrow> (Inr pkg, api')))"

text \<open>
  Modelled from the spec: \<open>newChannelActivityEntry\<close> is declared outside channels.go. The
  spec has it emit one activity record with the type, the severity, the subject (version
  and application) and the channel; the timestamp is the store's.
\<close>

definition newChannelActivityEntry ::
  "API \<Rightarrow> activity_class \<Rightarrow> activity_severity \<Rightarrow> string \<Rightarrow> string \<Rightarrow> string
     \<Rightarrow> error option \<times> API" where
  "newChannelActivityEntry api class severity version appID channelID =
     (case stmt api of
        (False, api') \<Rightarrow> (Some ErrStore, api')
      | (True, api') \<Rightarrow>
          (None, api'\<lparr>dbR := (dbR api')\<lparr>activity_tbl := activity_tbl (dbR api') @
             [\<lparr>Class = class, Severity = severity, ActivityVersion = version,
               ActivityApplicationID = appID, ActivityChannelID = channelID\<rparr>]\<rparr>\<rparr>))"

subsection \<open>channelsQuery\<close>

text \<open>
  \<open>SelectDoc("*").One("package", packagesQuery().Where("package.id = channel.package_id"))
  .From("channel").OrderBy("name ASC")\<close>: every row of \<open>channel\<close> as a struct, with the
  package whose identifier is the row's \<open>package_id\<close> embedded (none for a null column or
  a missing package), ordered by name. The order of names is the order of their bytes.
\<close>

definition resolve :: "db \<Rightarrow> channel_row \<Rightarrow> Channel" where
  "resolve d r =
     \<lparr>ID = row_id r, Name = row_name r, Color = row_color r,
      CreatedTs = row_created_ts r, ApplicationID = row_application_id r,
      PackageID = of_column (row_package_id r),
      Package = (case row_package_id r of
                   None \<Rightarrow> None
                 | Some pid \<Rightarrow> find (\<lambda>p. Package.ID p = pid) (package_tbl d)),
      Arch = row_arch r\<rparr>"

definition channelsQuery :: "db \<Rightarrow> Channel list" where
  "channelsQuery d = map (resolve d) (sort_key row_name (channel_tbl d))"

subsection \<open>validatePackage\<close>

text \<open>The loop over \<open>pkg.ChannelsBlacklist\<close>: true when it returns inside the loop.\<close>

fun blacklisted :: "string \<Rightarrow> string list \<Rightarrow> bool" where
  "blacklisted channelID [] = False"
| "blacklisted channelID (blacklistedChannelID # rest) =
     (if channelID = blacklistedChannelID then True else blacklisted channelID rest)"

definition validatePackage ::
  "API \<Rightarrow> string \<Rightarrow> string \<Rightarrow> string \<Rightarrow> Arch \<Rightarrow> (error + Package) \<times> API" where
  "validatePackage api packageID channelID appID channelArch =
     (case GetPackage api packageID of
        (Inl err, api') \<Rightarrow> (Inl err, api')
      | (Inr pkg, api') \<Rightarrow>
          if Package.ApplicationID pkg \<noteq> appID then (Inl ErrInvalidPackage, api')
          else if Package.Arch pkg \<noteq> channelArch then (Inl ErrArchMismatch, api')
          else if blacklisted channelID (ChannelsBlacklist pkg)
            then (Inl ErrBlacklistedChannel, api')
          else (Inr pkg, api'))"

subsection \<open>AddChannel\<close>

text \<open>
  \<open>InsertInto("channel").Whitelist("name", "color", "application_id", "package_id",
  "arch").Record(channel).Returning("*").QueryStruct(channel)\<close>: the five columns come from
  the struct, \<open>id\<close> and \<open>created_ts\<close> are the store's defaults \<open>gen\<close>, and the columns of
  the new row are read back into the struct. Rows are keyed by their identifier, so an
  identifier already in the table makes the statement fail.
\<close>

definition insert_channel ::
  "string \<times> nat \<Rightarrow> API \<Rightarrow> Channel \<Rightarrow> (error + Channel) \<times> API" where
  "insert_channel gen api channel =
     (case stmt api of
        (False, api') \<Rightarrow> (Inl ErrStore, api')
      | (True, api') \<Rightarrow>
          if fst gen \<in> set (map row_id (channel_tbl (dbR api')))
          then (Inl ErrStore, api')
          else
            (Inr (channel\<lparr>ID := fst gen, CreatedTs := snd gen,
                    PackageID := of_column (to_column (PackageID channel))\<rparr>),
             api'\<lparr>dbR := (dbR api')\<lparr>channel_tbl := channel_tbl (dbR api') @
               [\<lparr>row_id = fst gen, row_name = Name channel, row_color = Color channel,
                 row_created_ts = snd gen, row_application_id = ApplicationID channel,
                 row_package_id = to_column (PackageID channel),
                 row_arch = Arch channel\<rparr>]\<rparr>\<rparr>))"

definition AddChannel ::
  "(Arch \<Rightarrow> bool) \<Rightarrow> string \<times> nat \<Rightarrow> API \<Rightarrow> Channel \<Rightarrow> (error + Channel) \<times> API" where
  "AddChannel IsValid gen api channel =
     (if \<not> IsValid (Arch channel) then (Inl ErrInvalidArch, api)
      else if String (PackageID channel) \<noteq> []
      then
        (case validatePackage api (String (PackageID channel)) (ID channel)
                (ApplicationID channel) (Arch channel) of
           (Inl err, api') \<Rightarrow> (Inl err, api')
         | (Inr _, api') \<Rightarrow> insert_channel gen api' channel)
      else insert_channel gen api channel)"

subsection \<open>GetChannel, GetChannels, getSpecificChannels\<close>

definition GetChannel :: "API \<Rightarrow> string \<Rightarrow> (error + Channel) \<times> API" where
  "GetChannel api channelID =
     (case stmt api of
        (False, api') \<Rightarrow> (Inl ErrStore, api')
      | (True, api') \<Rightarrow>
          (case filter (\<lambda>c. ID c = channelID) (channelsQuery (dbR api')) of
             [] \<Rightarrow> (Inl ErrNotFound, api')
           | channel # _ \<Rightarrow> (Inr channel, api')))"

definition getSpecificChannels :: "API \<Rightarrow> string list \<Rightarrow> (error + Channel list) \<times> API" where
  "getSpecificChannels api channelID =
     (case stmt api of
        (False, api') \<Rightarrow> (Inl ErrStore, api')
      | (True, api') \<Rightarrow>
          (Inr (filter (\<lambda>c. ID c \<in> set channelID) (channelsQuery (dbR api'))), api'))"

text \<open>
  The library's \<open>Paginate(page, perPage)\<close>: \<open>LIMIT perPage OFFSET (page - 1) * perPage\<close>,
  computed on unsigned 64-bit integers.
\<close>

definition Paginate :: "64 word \<Rightarrow> 64 word \<Rightarrow> 'a list \<Rightarrow> 'a list" where
  "Paginate page perPage xs = take (unat perPage) (drop (unat ((page - 1) * perPage)) xs)"

text \<open>
  \<open>validatePaginationParams\<close> is declared outside channels.go: it is the parameter
  \<open>validatePaginationParams\<close> here.
\<close>

definition GetChannels ::
  "(64 word \<times> 64 word \<Rightarrow> 64 word \<times> 64 word) \<Rightarrow> API \<Rightarrow> string \<Rightarrow> 64 word \<Rightarrow> 64 word
     \<Rightarrow> (error + Channel list) \<times> API" where
  "GetChannels validatePaginationParams api appID page perPage =
     (case validatePaginationParams (page, perPage) of
        (page', perPage') \<Rightarrow>
          (case stmt api of
             (False, api') \<Rightarrow> (Inl ErrStore, api')
           | (True, api') \<Rightarrow>
               (Inr (Paginate page' perPage'
                       (filter (\<lambda>c. ApplicationID c = appID) (channelsQuery (dbR api')))),
                api')))"

subsection \<open>UpdateChannel, DeleteChannel\<close>

text \<open>
  \<open>Update("channel").SetWhitelist(channel, "name", "color", "package_id")
  .Where("id = $1", channel.ID).Exec()\<close>: the three columns of every row with the
  identifier are written; the result is the number of rows written.
\<close>

definition set_whitelist :: "Channel \<Rightarrow> channel_row \<Rightarrow> channel_row" where
  "set_whitelist channel r =
     (if row_id r = ID channel
      then r\<lparr>row_name := Name channel, row_color := Color channel,
             row_package_id := to_column (PackageID channel)\<rparr>
      else r)"

definition update_channel :: "API \<Rightarrow> Channel \<Rightarrow> (error + nat) \<times> API" where
  "update_channel api channel =
     (case stmt api of
        (False, api') \<Rightarrow> (Inl ErrStore, api')
      | (True, api') \<Rightarrow>
          (Inr (length (filter (\<lambda>r. row_id r = ID channel) (channel_tbl (dbR api')))),
           api'\<lparr>dbR := (dbR api')\<lparr>channel_tbl :=
             map (set_whitelist channel) (channel_tbl (dbR api'))\<rparr>\<rparr>))"

text \<open>
  The result is the Go \<open>error\<close>, \<open>None\<close> for \<open>nil\<close>. The variable \<open>pkg\<close> is \<open>None\<close> (the
  nil pointer) unless a package was validated; the last test of the function,
  \<open>channelBeforeUpdate.PackageID.String != channel.PackageID.String && pkg != nil\<close>, is
  the case on \<open>pkg\<close> with the comparison inside. The error that
  \<open>newChannelActivityEntry\<close> returns is dropped, as in the source.
\<close>

definition UpdateChannel :: "API \<Rightarrow> Channel \<Rightarrow> error option \<times> API" where
  "UpdateChannel api channel =
     (case GetChannel api (ID channel) of
        (Inl err, api1) \<Rightarrow> (Some err, api1)
      | (Inr channelBeforeUpdate, api1) \<Rightarrow>
          (case (if String (PackageID channel) \<noteq> []
                 then (case validatePackage api1 (String (PackageID channel)) (ID channel)
                               (ApplicationID channelBeforeUpdate) (Arch channelBeforeUpdate) of
                         (Inl err, api2) \<Rightarrow> (Inl err, api2)
                       | (Inr p, api2) \<Rightarrow> (Inr (Some p), api2))
                 else (Inr None, api1)) of
             (Inl err, api2) \<Rightarrow> (Some err, api2)
           | (Inr pkg, api2) \<Rightarrow>
               (case update_channel api2 channel of
                  (Inl err, api3) \<Rightarrow> (Some err, api3)
                | (Inr RowsAffected, api3) \<Rightarrow>
                    if RowsAffected = 0 then (Some ErrNoRowsAffected, api3)
                    else
                      (case pkg of
                         Some p \<Rightarrow>
                           if String (PackageID channelBeforeUpdate) \<noteq> String (PackageID channel)
                           then (None, snd (newChannelActivityEntry api3
                                   activityChannelPackageUpdated activityInfo
                                   (Version p) (Package.ApplicationID p) (ID channel)))
                           else (None, api3)
                       | None \<Rightarrow> (None, api3)))))"

text \<open>\<open>DeleteFrom("channel").Where("id = $1", channelID).Exec()\<close>.\<close>

definition delete_channel :: "API \<Rightarrow> string \<Rightarrow> (error + nat) \<times> API" where
  "delete_channel api channelID =
     (case stmt api of
        (False, api') \<Rightarrow> (Inl ErrStore, api')
      | (True, api') \<Rightarrow>
          (Inr (length (filter (\<lambda>r. row_id r = channelID) (channel_tbl (dbR api')))),
           api'\<lparr>dbR := (dbR api')\<lparr>channel_tbl :=
             filter (\<lambda>r. row_id r \<noteq> channelID) (channel_tbl (dbR api'))\<rparr>\<rparr>))"

definition DeleteChannel :: "API \<Rightarrow> string \<Rightarrow> error option \<times> API" where
  "DeleteChannel api channelID =
     (case delete_channel api channelID of
        (Inl err, api') \<Rightarrow> (Some err, api')
      | (Inr RowsAffected, api') \<Rightarrow>
          if RowsAffected = 0 then (Some ErrNoRowsAffected, api') else (None, api'))"

subsection \<open>Scripts without other sessions\<close>

text \<open>
  A script is sequential when no other session commits while this one runs: its
  statements run or fail, on the tables this session left.
\<close>

fun sequential :: "event \<Rightarrow> bool" where
  "sequential (Interfere f) = False"
| "sequential _ = True"

definition quiet :: "API \<Rightarrow> bool" where
  "quiet api = list_all sequential (pending api)"

fun faulty :: "event list \<Rightarrow> bool" where
  "faulty (Fault # es) = True"
| "faulty _ = False"

definition nxt :: "API \<Rightarrow> API" where
  "nxt api = api\<lparr>pending := tl (pending api)\<rparr>"

subsection \<open>The placement invariant\<close>

text \<open>Rows of \<open>channel\<close> are keyed by their identifier.\<close>

definition keyed :: "db \<Rightarrow> bool" where
  "keyed d = distinct (map row_id (channel_tbl d))"






subsection \<open>What the statements of UpdateChannel leave behind\<close>

text \<open>The receiver after the update statement for \<open>ch\<close>, and after an activity insert.\<close>

definition written :: "API \<Rightarrow> Channel \<Rightarrow> API" where
  "written api ch =
     api\<lparr>dbR := (dbR api)\<lparr>channel_tbl := map (set_whitelist ch) (channel_tbl (dbR api))\<rparr>\<rparr>"

definition emitted :: "API \<Rightarrow> Activity \<Rightarrow> API" where
  "emitted api a = api\<lparr>dbR := (dbR api)\<lparr>activity_tbl := activity_tbl (dbR api) @ [a]\<rparr>\<rparr>"

text \<open>The activity record that \<open>UpdateChannel\<close> passes to \<open>newChannelActivityEntry\<close>.\<close>

definition package_updated :: "Package \<Rightarrow> string \<Rightarrow> Activity" where
  "package_updated pkg channelID =
     \<lparr>Class = activityChannelPackageUpdated, Severity = activityInfo,
      ActivityVersion = Version pkg, ActivityApplicationID = Package.ApplicationID pkg,
      ActivityChannelID = channelID\<rparr>"

text \<open>The columns of a channel row that \<open>UpdateChannel\<close> does not name.\<close>

definition frame :: "channel_row \<Rightarrow> string \<times> string \<times> Arch \<times> nat" where
  "frame r = (row_id r, row_application_id r, row_arch r, row_created_ts r)"

subsection \<open>A small store for the examples\<close>

definition pkg1 :: Package where
  "pkg1 = \<lparr>Package.ID = ''p1'', ApplicationID = ''app'', Arch = 1, Version = ''1.0.0'',
           URL = ''http://x/'', ChannelsBlacklist = [''c2'']\<rparr>"

definition pkg2 :: Package where
  "pkg2 = \<lparr>Package.ID = ''p2'', ApplicationID = ''app'', Arch = 2, Version = ''2.0.0'',
           URL = ''http://y/'', ChannelsBlacklist = [''c1'']\<rparr>"

definition pkg3 :: Package where
  "pkg3 = \<lparr>Package.ID = ''p3'', ApplicationID = ''app'', Arch = 1, Version = ''3.0.0'',
           URL = ''http://z/'', ChannelsBlacklist = []\<rparr>"

definition row1 :: channel_row where
  "row1 = \<lparr>row_id = ''c1'', row_name = ''stable'', row_color = ''red'', row_created_ts = 5,
           row_application_id = ''app'', row_package_id = Some ''p1'', row_arch = 1\<rparr>"

definition row2 :: channel_row where
  "row2 = \<lparr>row_id = ''c2'', row_name = ''beta'', row_color = ''blue'', row_created_ts = 6,
           row_application_id = ''app'', row_package_id = None, row_arch = 1\<rparr>"

definition db0 :: db where
  "db0 = \<lparr>channel_tbl = [row1, row2], package_tbl = [pkg1, pkg2, pkg3], activity_tbl = []\<rparr>"

definition api0 :: API where
  "api0 = \<lparr>dbR = db0, pending = []\<rparr>"

text \<open>A channel struct as a caller builds it: identifier, name, colour and package.\<close>

definition chan :: "string \<Rightarrow> string \<Rightarrow> NullString \<Rightarrow> Channel" where
  "chan cid nm ref =
     \<lparr>ID = cid, Name = nm, Color = ''green'', CreatedTs = 0, ApplicationID = ''app'',
      PackageID = ref, Package = None, Arch = 1\<rparr>"

text \<open>A validity test for the examples: the architectures up to 3 are valid.\<close>

definition valid_arch :: "Arch \<Rightarrow> bool" where
  "valid_arch a = (a \<le> 3)"

definition NullStringFrom :: "string \<Rightarrow> NullString" where
  "NullStringFrom s = \<lparr>String = s, Valid = True\<rparr>"

definition null_string :: NullString where
  "null_string = \<lparr>String = [], Valid = False\<rparr>"

text \<open>
  Two scripts: another session deletes channel \<open>c2\<close> before the second statement; and a
  script whose third statement fails.
\<close>

definition other_session_deletes :: "string \<Rightarrow> db \<Rightarrow> db" where
  "other_session_deletes cid d = d\<lparr>channel_tbl := filter (\<lambda>r. row_id r \<noteq> cid) (channel_tbl d)\<rparr>"

definition api_race :: API where
  "api_race = \<lparr>dbR = db0, pending = [Proceed, Interfere (other_session_deletes ''c2'')]\<rparr>"

definition api_script :: API where
  "api_script = \<lparr>dbR = db0, pending = [Proceed, Proceed, Fault]\<rparr>"


section \<open>Properties\<close>

subsection \<open>Helper facts\<close>

lemma blacklisted_iff: "blacklisted channelID bs \<longleftrightarrow> channelID \<in> set bs"
  by (induction bs) auto

lemma stmt_api0: "stmt api0 = (True, api0)"
  by (simp add: stmt_def api0_def)

lemma GetPackage_api0_p1: "GetPackage api0 ''p1'' = (Inr pkg1, api0)"
  by (simp add: GetPackage_def stmt_api0) (simp add: api0_def db0_def pkg1_def)

lemma env_sequential:
  "list_all sequential es \<Longrightarrow> env es d = (\<not> faulty es, d, tl es)"
  by (cases es rule: faulty.cases) auto

lemma stmt_quiet: "quiet api \<Longrightarrow> stmt api = (\<not> faulty (pending api), nxt api)"
  by (simp add: stmt_def quiet_def env_sequential nxt_def)

lemma quiet_nxt: "quiet api \<Longrightarrow> quiet (nxt api)"
  by (cases "pending api") (auto simp: quiet_def nxt_def)

lemma dbR_nxt: "dbR (nxt api) = dbR api"
  by (simp add: nxt_def)

lemma stmt_empty: "pending api = [] \<Longrightarrow> stmt api = (True, api)"
  by (simp add: stmt_def)

lemma filter_key_distinct:
  "distinct (map f xs) \<Longrightarrow> x \<in> set xs \<Longrightarrow> filter (\<lambda>y. f y = f x) xs = [x]"
  by (induction xs) (auto simp: image_iff filter_empty_conv)

lemma ID_resolve: "ID (resolve d r) = row_id r"
  by (simp add: resolve_def)

lemma channelsQuery_by_id:
  assumes "distinct (map row_id (channel_tbl d))" and "r \<in> set (channel_tbl d)"
  shows "filter (\<lambda>c. ID c = row_id r) (channelsQuery d) = [resolve d r]"
proof -
  have "filter (\<lambda>c. ID c = row_id r) (channelsQuery d)
        = map (resolve d) (filter (\<lambda>x. row_id x = row_id r) (sort_key row_name (channel_tbl d)))"
    by (simp add: channelsQuery_def filter_map o_def ID_resolve)
  also have "filter (\<lambda>x. row_id x = row_id r) (sort_key row_name (channel_tbl d))
        = sort_key row_name (filter (\<lambda>x. row_id x = row_id r) (channel_tbl d))"
    by (simp add: filter_sort)
  also have "\<dots> = [r]"
    using assms by (simp add: filter_key_distinct)
  finally show ?thesis by simp
qed

lemma channelsQuery_no_id:
  "(\<forall>r \<in> set (channel_tbl d). row_id r \<noteq> cid) \<Longrightarrow> filter (\<lambda>c. ID c = cid) (channelsQuery d) = []"
  by (auto simp: channelsQuery_def filter_empty_conv ID_resolve)

lemma GetPackage_quiet:
  "quiet api \<Longrightarrow> GetPackage api pid =
     (if faulty (pending api) then Inl ErrStore
      else case find (\<lambda>p. Package.ID p = pid) (package_tbl (dbR api)) of
             None \<Rightarrow> Inl ErrNotFound | Some pkg \<Rightarrow> Inr pkg, nxt api)"
  by (simp add: GetPackage_def stmt_quiet dbR_nxt split: option.splits bool.splits)

lemma validatePackage_quiet:
  assumes "quiet api" and "validatePackage api pid cid app a = (res, api')"
  shows "api' = nxt api \<and>
         (\<forall>pkg. res = Inr pkg \<longrightarrow>
            find (\<lambda>p. Package.ID p = pid) (package_tbl (dbR api)) = Some pkg \<and>
            Package.ApplicationID pkg = app \<and> Package.Arch pkg = a \<and>
            cid \<notin> set (ChannelsBlacklist pkg))"
  using assms
  by (auto simp: validatePackage_def GetPackage_quiet blacklisted_iff
           split: if_splits option.splits)

lemma GetChannel_quiet:
  assumes "quiet api" and "GetChannel api cid = (res, api')"
  shows "api' = nxt api \<and>
         (\<forall>c. res = Inr c \<longrightarrow>
            (\<exists>r \<in> set (channel_tbl (dbR api)). row_id r = cid \<and> c = resolve (dbR api) r))"
proof -
  have "\<exists>r \<in> set (channel_tbl d). row_id r = cid \<and> c = resolve d r"
    if "filter (\<lambda>c. ID c = cid) (channelsQuery d) = c # cs" for d c cs
  proof -
    have "c \<in> set (filter (\<lambda>c. ID c = cid) (channelsQuery d))"
      using that by simp
    then show ?thesis
      by (auto simp: channelsQuery_def ID_resolve)
  qed
  then show ?thesis
    using assms
    by (auto simp: GetChannel_def stmt_quiet dbR_nxt split: if_splits list.splits bool.splits)
qed

lemma update_channel_quiet:
  "quiet api \<Longrightarrow> update_channel api ch =
     (if faulty (pending api) then (Inl ErrStore, nxt api)
      else (Inr (length (filter (\<lambda>r. row_id r = ID ch) (channel_tbl (dbR api)))),
            (nxt api)\<lparr>dbR := (dbR api)\<lparr>channel_tbl :=
               map (set_whitelist ch) (channel_tbl (dbR api))\<rparr>\<rparr>))"
  by (simp add: update_channel_def stmt_quiet dbR_nxt split: bool.splits)

lemma newChannelActivityEntry_tables:
  "quiet api \<Longrightarrow>
   channel_tbl (dbR (snd (newChannelActivityEntry api c s v a i))) = channel_tbl (dbR api) \<and>
   package_tbl (dbR (snd (newChannelActivityEntry api c s v a i))) = package_tbl (dbR api)"
  by (simp add: newChannelActivityEntry_def stmt_quiet dbR_nxt split: bool.splits)

text \<open>What a call of UpdateChannel leaves in the store, when no other session commits.\<close>

lemma UpdateChannel_quiet:
  assumes "quiet api"
  shows "(fst (UpdateChannel api ch) \<noteq> None \<and> dbR (snd (UpdateChannel api ch)) = dbR api) \<or>
         (fst (UpdateChannel api ch) = None \<and>
          package_tbl (dbR (snd (UpdateChannel api ch))) = package_tbl (dbR api) \<and>
          channel_tbl (dbR (snd (UpdateChannel api ch)))
            = map (set_whitelist ch) (channel_tbl (dbR api)) \<and>
          (\<exists>r \<in> set (channel_tbl (dbR api)). row_id r = ID ch \<and>
             (String (PackageID ch) \<noteq> [] \<longrightarrow>
                (\<exists>pkg. find (\<lambda>p. Package.ID p = String (PackageID ch)) (package_tbl (dbR api))
                          = Some pkg \<and>
                   Package.ApplicationID pkg = row_application_id r \<and>
                   Package.Arch pkg = row_arch r \<and>
                   ID ch \<notin> set (ChannelsBlacklist pkg)))))"
proof -
  obtain res1 api1 where g: "GetChannel api (ID ch) = (res1, api1)"
    by (cases "GetChannel api (ID ch)")
  from GetChannel_quiet [OF assms g] have a1: "api1 = nxt api"
    and r1: "\<forall>c. res1 = Inr c \<longrightarrow>
            (\<exists>r \<in> set (channel_tbl (dbR api)). row_id r = ID ch \<and> c = resolve (dbR api) r)"
    by auto
  have q1: "quiet api1" using a1 assms by (simp add: quiet_nxt)
  have d1: "dbR api1 = dbR api" using a1 by (simp add: dbR_nxt)
  show ?thesis
  proof (cases res1)
    case (Inl e)
    then show ?thesis using g d1 by (simp add: UpdateChannel_def)
  next
    case (Inr before)
    then obtain r where r: "r \<in> set (channel_tbl (dbR api))" "row_id r = ID ch"
      "before = resolve (dbR api) r" using r1 by auto
    then have n: "filter (\<lambda>x. row_id x = ID ch) (channel_tbl (dbR api)) \<noteq> []"
      by (auto simp: filter_empty_conv)
    show ?thesis
    proof (cases "String (PackageID ch) \<noteq> []")
      case False
      then show ?thesis
        using g Inr q1 d1 r n
        by (auto simp: UpdateChannel_def update_channel_quiet dbR_nxt)
    next
      case True
      obtain res2 api2 where v: "validatePackage api1 (String (PackageID ch)) (ID ch)
          (ApplicationID before) (Arch before) = (res2, api2)"
        by (cases "validatePackage api1 (String (PackageID ch)) (ID ch)
          (ApplicationID before) (Arch before)")
      from validatePackage_quiet [OF q1 v] have a2: "api2 = nxt api1"
        and r2: "\<forall>pkg. res2 = Inr pkg \<longrightarrow>
            find (\<lambda>p. Package.ID p = String (PackageID ch)) (package_tbl (dbR api1)) = Some pkg \<and>
            Package.ApplicationID pkg = ApplicationID before \<and> Package.Arch pkg = Arch before \<and>
            ID ch \<notin> set (ChannelsBlacklist pkg)"
        by auto
      have q2: "quiet api2" using a2 q1 by (simp add: quiet_nxt)
      have d2: "dbR api2 = dbR api" using a2 d1 by (simp add: dbR_nxt)
      show ?thesis
      proof (cases res2)
        case (Inl e)
        then show ?thesis using g \<open>res1 = Inr before\<close> True v d2
          by (simp add: UpdateChannel_def)
      next
        case (Inr pkg)
        have q3: "quiet ((nxt api2)\<lparr>dbR := (dbR api)\<lparr>channel_tbl :=
               map (set_whitelist ch) (channel_tbl (dbR api))\<rparr>\<rparr>)"
          using quiet_nxt [OF q2] by (simp add: quiet_def)
        have facts: "find (\<lambda>p. Package.ID p = String (PackageID ch)) (package_tbl (dbR api)) = Some pkg"
          "Package.ApplicationID pkg = row_application_id r" "Package.Arch pkg = row_arch r"
          "ID ch \<notin> set (ChannelsBlacklist pkg)"
          using r2 Inr d1 r by (simp_all add: resolve_def)
        show ?thesis
          using g \<open>res1 = Inr before\<close> True v Inr q2 d2 r facts n
                newChannelActivityEntry_tables [OF q3]
          by (auto simp: UpdateChannel_def update_channel_quiet dbR_nxt)
      qed
    qed
  qed
qed






lemma distinct_same_key:
  "distinct (map f xs) \<Longrightarrow> x \<in> set xs \<Longrightarrow> y \<in> set xs \<Longrightarrow> f x = f y \<Longrightarrow> x = y"
  by (induction xs) (auto simp: image_iff)







lemma GetPackage_calm:
  "pending api = [] \<Longrightarrow> GetPackage api pid =
     (case find (\<lambda>p. Package.ID p = pid) (package_tbl (dbR api)) of
        None \<Rightarrow> Inl ErrNotFound | Some pkg \<Rightarrow> Inr pkg, api)"
  by (simp add: GetPackage_def stmt_empty split: option.splits)

lemma validatePackage_calm:
  "pending api = [] \<Longrightarrow> validatePackage api pid cid app a =
     (case find (\<lambda>p. Package.ID p = pid) (package_tbl (dbR api)) of
        None \<Rightarrow> Inl ErrNotFound
      | Some pkg \<Rightarrow>
          if Package.ApplicationID pkg \<noteq> app then Inl ErrInvalidPackage
          else if Package.Arch pkg \<noteq> a then Inl ErrArchMismatch
          else if cid \<in> set (ChannelsBlacklist pkg) then Inl ErrBlacklistedChannel
          else Inr pkg, api)"
  by (simp add: validatePackage_def GetPackage_calm blacklisted_iff split: option.splits)

lemma GetChannel_calm:
  "pending api = [] \<Longrightarrow> keyed (dbR api) \<Longrightarrow> r \<in> set (channel_tbl (dbR api)) \<Longrightarrow>
   GetChannel api (row_id r) = (Inr (resolve (dbR api) r), api)"
  by (simp add: GetChannel_def stmt_empty channelsQuery_by_id keyed_def)

lemma GetChannel_calm_missing:
  "pending api = [] \<Longrightarrow> \<forall>r \<in> set (channel_tbl (dbR api)). row_id r \<noteq> cid \<Longrightarrow>
   GetChannel api cid = (Inl ErrNotFound, api)"
  by (simp add: GetChannel_def stmt_empty channelsQuery_no_id)

lemma update_channel_calm:
  "pending api = [] \<Longrightarrow> update_channel api ch =
     (Inr (length (filter (\<lambda>r. row_id r = ID ch) (channel_tbl (dbR api)))), written api ch)"
  by (simp add: update_channel_def stmt_empty written_def)

lemma newChannelActivityEntry_calm:
  "pending api = [] \<Longrightarrow> newChannelActivityEntry api c s v a i =
     (None, emitted api \<lparr>Class = c, Severity = s, ActivityVersion = v,
                          ActivityApplicationID = a, ActivityChannelID = i\<rparr>)"
  by (simp add: newChannelActivityEntry_def stmt_empty emitted_def)

lemma UpdateChannel_calm:
  assumes "pending api = []" and "keyed (dbR api)"
    and "r \<in> set (channel_tbl (dbR api))" and "row_id r = ID ch"
  shows "UpdateChannel api ch =
    (if String (PackageID ch) = [] then (None, written api ch)
     else case find (\<lambda>p. Package.ID p = String (PackageID ch)) (package_tbl (dbR api)) of
        None \<Rightarrow> (Some ErrNotFound, api)
      | Some pkg \<Rightarrow>
          if Package.ApplicationID pkg \<noteq> row_application_id r then (Some ErrInvalidPackage, api)
          else if Package.Arch pkg \<noteq> row_arch r then (Some ErrArchMismatch, api)
          else if ID ch \<in> set (ChannelsBlacklist pkg) then (Some ErrBlacklistedChannel, api)
          else if String (of_column (row_package_id r)) \<noteq> String (PackageID ch)
            then (None, emitted (written api ch) (package_updated pkg (ID ch)))
          else (None, written api ch))"
proof -
  have g: "GetChannel api (ID ch) = (Inr (resolve (dbR api) r), api)"
    using GetChannel_calm [OF assms(1-3)] assms(4) by simp
  have n: "length (filter (\<lambda>x. row_id x = ID ch) (channel_tbl (dbR api))) \<noteq> 0"
    using assms(3,4) by (auto simp: filter_empty_conv)
  have w: "pending (written api ch) = []"
    using assms(1) by (simp add: written_def)
  show ?thesis
    using n
    by (simp add: UpdateChannel_def g validatePackage_calm [OF assms(1)]
          update_channel_calm [OF assms(1)] newChannelActivityEntry_calm [OF w]
          package_updated_def resolve_def
        split: option.splits)
qed


lemma set_whitelist_untouched:
  "\<forall>r \<in> set rows. row_id r \<noteq> ID ch \<Longrightarrow> map (set_whitelist ch) rows = rows"
  by (induction rows) (auto simp: set_whitelist_def)

lemma filter_untouched:
  "\<forall>r \<in> set rows. row_id r \<noteq> cid \<Longrightarrow> filter (\<lambda>r. row_id r \<noteq> cid) rows = rows"
  by (induction rows) auto

lemma no_match_length:
  "\<forall>r \<in> set rows. row_id r \<noteq> cid \<Longrightarrow> length (filter (\<lambda>r. row_id r = cid) rows) = 0"
  by (simp add: filter_empty_conv)

lemma GetChannel_found:
  assumes "stmt api = (True, api1)" and "r \<in> set (channel_tbl (dbR api1))"
  shows "\<exists>c. GetChannel api (row_id r) = (Inr c, api1)"
proof -
  have "resolve (dbR api1) r \<in> set (filter (\<lambda>c. ID c = row_id r) (channelsQuery (dbR api1)))"
    using assms(2) by (simp add: channelsQuery_def ID_resolve)
  then obtain c cs where "filter (\<lambda>c. ID c = row_id r) (channelsQuery (dbR api1)) = c # cs"
    by (cases "filter (\<lambda>c. ID c = row_id r) (channelsQuery (dbR api1))") auto
  then show ?thesis using assms(1) by (simp add: GetChannel_def)
qed

lemma UpdateChannel_supplied:
  "UpdateChannel api (channel\<lparr>ApplicationID := a, Arch := b, CreatedTs := t, Package := p\<rparr>)
     = UpdateChannel api channel"
proof -
  have s: "set_whitelist (channel\<lparr>ApplicationID := a, Arch := b, CreatedTs := t, Package := p\<rparr>)
             = set_whitelist channel"
    by (rule ext) (simp add: set_whitelist_def)
  have u: "update_channel api' (channel\<lparr>ApplicationID := a, Arch := b, CreatedTs := t, Package := p\<rparr>)
             = update_channel api' channel" for api'
    by (simp add: update_channel_def s split: prod.splits bool.splits)
  show ?thesis
    by (simp add: UpdateChannel_def u
          cong: prod.case_cong sum.case_cong option.case_cong if_cong)
qed

lemma frame_set_whitelist: "frame (set_whitelist ch r) = frame r"
  by (simp add: frame_def set_whitelist_def)

lemma others_set_whitelist:
  "filter (\<lambda>r. row_id r \<noteq> ID ch) (map (set_whitelist ch) rows)
     = filter (\<lambda>r. row_id r \<noteq> ID ch) rows"
  by (induction rows) (auto simp: set_whitelist_def)

lemma GetChannel_found_quiet:
  assumes "quiet api" and "\<not> faulty (pending api)" and "r \<in> set (channel_tbl (dbR api))"
  shows "\<exists>c. GetChannel api (row_id r) = (Inr c, nxt api)"
  using GetChannel_found [of api "nxt api" r] assms by (simp add: stmt_quiet dbR_nxt)

lemma filter_channelsQuery:
  "filter (\<lambda>c. P (ID c) (ApplicationID c)) (channelsQuery d)
     = map (resolve d) (sort_key row_name
         (filter (\<lambda>r. P (row_id r) (row_application_id r)) (channel_tbl d)))"
  by (simp add: channelsQuery_def filter_map o_def resolve_def filter_sort)

lemma sorted_page: "sorted (map f xs) \<Longrightarrow> sorted (map f (Paginate page perPage xs))"
  by (simp add: Paginate_def take_map [symmetric] drop_map [symmetric] del: take_map drop_map)

lemma Name_resolve: "map Name (map (resolve d) rows) = map row_name rows"
  by (simp add: resolve_def o_def)

subsection \<open>Facts about the example store\<close>

lemma api0_pending: "pending api0 = []"
  by (simp add: api0_def)

lemma api0_quiet: "quiet api0"
  by (simp add: quiet_def api0_def)

lemma api0_channels: "channel_tbl (dbR api0) = [row1, row2]"
  by (simp add: api0_def db0_def)

lemma api0_packages: "package_tbl (dbR api0) = [pkg1, pkg2, pkg3]"
  by (simp add: api0_def db0_def)

lemma api0_keyed: "keyed (dbR api0)"
  by (simp add: keyed_def api0_channels row1_def row2_def)


lemma api0_find:
  "find (\<lambda>p. Package.ID p = ''p1'') (package_tbl (dbR api0)) = Some pkg1"
  "find (\<lambda>p. Package.ID p = ''p2'') (package_tbl (dbR api0)) = Some pkg2"
  "find (\<lambda>p. Package.ID p = ''p3'') (package_tbl (dbR api0)) = Some pkg3"
  by (simp_all add: api0_packages pkg1_def pkg2_def pkg3_def)

lemma api0_rows: "row1 \<in> set (channel_tbl (dbR api0))" "row2 \<in> set (channel_tbl (dbR api0))"
  by (simp_all add: api0_channels)

text \<open>Channel \<open>c2\<close> takes package \<open>p3\<close>: the update is accepted and one activity record is written.\<close>

lemma update_c2_p3:
  "UpdateChannel api0 (chan ''c2'' ''beta'' (NullStringFrom ''p3''))
     = (None, emitted (written api0 (chan ''c2'' ''beta'' (NullStringFrom ''p3'')))
                (package_updated pkg3 ''c2''))"
  using UpdateChannel_calm [OF api0_pending api0_keyed api0_rows(2),
          of "chan ''c2'' ''beta'' (NullStringFrom ''p3'')"]
  by (simp add: chan_def NullStringFrom_def api0_find row2_def of_column_def)
     (simp add: pkg3_def)

text \<open>Channel \<open>c1\<close> is cleared: the update is accepted and no activity record is written.\<close>

lemma update_c1_null:
  "UpdateChannel api0 (chan ''c1'' ''stable'' null_string)
     = (None, written api0 (chan ''c1'' ''stable'' null_string))"
  using UpdateChannel_calm [OF api0_pending api0_keyed api0_rows(1),
          of "chan ''c1'' ''stable'' null_string"]
  by (simp add: chan_def null_string_def row1_def)

text \<open>Channel \<open>c1\<close> takes package \<open>p2\<close>, which blacklists it but has another architecture.\<close>

lemma update_c1_p2:
  "UpdateChannel api0 (chan ''c1'' ''stable'' (NullStringFrom ''p2'')) = (Some ErrArchMismatch, api0)"
  using UpdateChannel_calm [OF api0_pending api0_keyed api0_rows(1),
          of "chan ''c1'' ''stable'' (NullStringFrom ''p2'')"]
  by (simp add: chan_def NullStringFrom_def api0_find row1_def)
     (simp add: pkg2_def)


subsection \<open>validatePackage\<close>

text \<open>
  C1. Whenever the package exists (\<open>GetPackage\<close> returns it), \<open>validatePackage\<close> fails with
  \<open>ErrInvalidPackage\<close> if the package's application is not the given one; otherwise with
  \<open>ErrArchMismatch\<close> if its architecture is not the given one; otherwise with
  \<open>ErrBlacklistedChannel\<close> if the channel identifier is in its blacklist; otherwise it
  returns the package and no error.
\<close>

theorem validatePackage_outcome:
  assumes "GetPackage api packageID = (Inr pkg, api')"
  shows "validatePackage api packageID channelID appID channelArch =
    (if Package.ApplicationID pkg \<noteq> appID then (Inl ErrInvalidPackage, api')
     else if Package.Arch pkg \<noteq> channelArch then (Inl ErrArchMismatch, api')
     else if channelID \<in> set (ChannelsBlacklist pkg) then (Inl ErrBlacklistedChannel, api')
     else (Inr pkg, api'))"
  using assms by (simp add: validatePackage_def blacklisted_iff)

theorem validatePackage_outcome_witness:
  "GetPackage api0 ''p1'' = (Inr pkg1, api0) \<and>
   validatePackage api0 ''p1'' ''c2'' ''other'' 2 = (Inl ErrInvalidPackage, api0) \<and>
   validatePackage api0 ''p1'' ''c2'' ''app'' 2 = (Inl ErrArchMismatch, api0) \<and>
   validatePackage api0 ''p1'' ''c2'' ''app'' 1 = (Inl ErrBlacklistedChannel, api0) \<and>
   validatePackage api0 ''p1'' ''c1'' ''app'' 1 = (Inr pkg1, api0)"
  using validatePackage_outcome [OF GetPackage_api0_p1, of "''c2''" "''other''" 2]
        validatePackage_outcome [OF GetPackage_api0_p1, of "''c2''" "''app''" 2]
        validatePackage_outcome [OF GetPackage_api0_p1, of "''c2''" "''app''" 1]
        validatePackage_outcome [OF GetPackage_api0_p1, of "''c1''" "''app''" 1]
        GetPackage_api0_p1
  by (simp add: pkg1_def)

subsection \<open>AddChannel and the architecture\<close>

text \<open>
  C5. When the channel's architecture is not valid, \<open>AddChannel\<close> returns \<open>ErrInvalidArch\<close>
  at once: the receiver comes back as it was given, so no statement was issued (its
  script is untouched), the package was not looked up, no row was inserted, and nothing
  was tried a second time. This holds whatever the package reference, the store and the
  script are.
\<close>

theorem AddChannel_invalid_arch:
  "\<not> IsValid (Arch channel) \<Longrightarrow>
   AddChannel IsValid gen api channel = (Inl ErrInvalidArch, api)"
  by (simp add: AddChannel_def)

theorem AddChannel_invalid_arch_witness:
  "\<not> valid_arch (Arch ((chan [] ''alpha'' (NullStringFrom ''p2''))\<lparr>Arch := 7\<rparr>)) \<and>
   AddChannel valid_arch (''c3'', 9) api0 ((chan [] ''alpha'' (NullStringFrom ''p2''))\<lparr>Arch := 7\<rparr>)
     = (Inl ErrInvalidArch, api0)"
  using AddChannel_invalid_arch [of valid_arch
          "(chan [] ''alpha'' (NullStringFrom ''p2''))\<lparr>Arch := 7\<rparr>" "(''c3'', 9)" api0]
  by (simp add: chan_def valid_arch_def)

subsection \<open>GetChannel\<close>

text \<open>
  C6. When the query of \<open>GetChannel\<close> runs on a table keyed by identifier, every stored
  channel identifier gets its channel back, with the columns of its row as they are at
  read time; the embedded package is the row of the package table that has the row's
  \<open>package_id\<close> as identifier at read time, and it is absent when \<open>package_id\<close> is null.
\<close>

theorem GetChannel_resolved:
  assumes "stmt api = (True, api')"
    and "distinct (map row_id (channel_tbl (dbR api')))"
    and "r \<in> set (channel_tbl (dbR api'))"
  shows "\<exists>c. GetChannel api (row_id r) = (Inr c, api') \<and>
             ID c = row_id r \<and> Name c = row_name r \<and> Color c = row_color r \<and>
             CreatedTs c = row_created_ts r \<and> ApplicationID c = row_application_id r \<and>
             Arch c = row_arch r \<and> PackageID c = of_column (row_package_id r) \<and>
             Package c = (case row_package_id r of
                            None \<Rightarrow> None
                          | Some pid \<Rightarrow> find (\<lambda>p. Package.ID p = pid) (package_tbl (dbR api')))"
  using assms by (simp add: GetChannel_def channelsQuery_by_id) (simp add: resolve_def)

lemma stmt_api0_tables:
  "distinct (map row_id (channel_tbl (dbR api0))) \<and> row1 \<in> set (channel_tbl (dbR api0))"
  by (simp add: api0_def db0_def row1_def row2_def)

theorem GetChannel_resolved_witness:
  "stmt api0 = (True, api0) \<and> distinct (map row_id (channel_tbl (dbR api0))) \<and>
   row1 \<in> set (channel_tbl (dbR api0)) \<and>
   (\<exists>c. GetChannel api0 ''c1'' = (Inr c, api0) \<and> ID c = ''c1'' \<and> Package c = Some pkg1)"
proof -
  have d: "distinct (map row_id (channel_tbl (dbR api0)))"
    and r: "row1 \<in> set (channel_tbl (dbR api0))"
    using stmt_api0_tables by simp_all
  have p: "find (\<lambda>p. Package.ID p = ''p1'') (package_tbl (dbR api0)) = Some pkg1"
    by (simp add: api0_def db0_def pkg1_def)
  from GetChannel_resolved [OF stmt_api0 d r] p
  have "\<exists>c. GetChannel api0 ''c1'' = (Inr c, api0) \<and> ID c = ''c1'' \<and> Package c = Some pkg1"
    by (auto simp: row1_def)
  then show ?thesis using stmt_api0 d r by simp
qed

subsection \<open>The placement invariant\<close>




subsection \<open>A package that blacklists the channel\<close>

text \<open>
  C3, as the claim states it, fails: package \<open>p2\<close> is stored and blacklists channel \<open>c1\<close>,
  but its architecture is not the channel's, and assigning it with \<open>UpdateChannel\<close> or
  \<open>AddChannel\<close> returns \<open>ErrArchMismatch\<close>, not \<open>ErrBlacklistedChannel\<close>.
\<close>

theorem blacklisted_assignment_counterexample:
  "pkg2 \<in> set (package_tbl (dbR api0)) \<and> Package.ID pkg2 = ''p2'' \<and>
   ''c1'' \<in> set (ChannelsBlacklist pkg2) \<and>
   UpdateChannel api0 (chan ''c1'' ''stable'' (NullStringFrom ''p2'')) = (Some ErrArchMismatch, api0) \<and>
   fst (UpdateChannel api0 (chan ''c1'' ''stable'' (NullStringFrom ''p2'')))
     \<noteq> Some ErrBlacklistedChannel \<and>
   fst (AddChannel valid_arch (''c3'', 9) api0 (chan ''c1'' ''stable'' (NullStringFrom ''p2'')))
     = Inl ErrArchMismatch"
  by (simp add: update_c1_p2 api0_packages)
     (simp add: pkg2_def AddChannel_def validatePackage_calm [OF api0_pending] api0_find
        chan_def NullStringFrom_def valid_arch_def)

text \<open>
  C3, amended. In a run where the store is left alone and does not fail, take a channel
  with a non-empty package reference to a stored package that blacklists the channel's
  identifier. Then \<open>AddChannel\<close>, and \<open>UpdateChannel\<close> on a stored channel, fail with a
  validation error and return the receiver as it was: no row, package pointer or other
  stored state changes. The error is \<open>ErrBlacklistedChannel\<close> when the package has the
  application and architecture of the channel (for \<open>AddChannel\<close>: of the struct, its
  architecture being valid; for \<open>UpdateChannel\<close>: of the stored row); otherwise it is the
  error of the first earlier check that fails: \<open>ErrInvalidArch\<close> for an invalid
  architecture (\<open>AddChannel\<close> only), else \<open>ErrInvalidPackage\<close> for another application, else
  \<open>ErrArchMismatch\<close> for another architecture.
\<close>

theorem blacklisted_assignment_rejected:
  assumes "pending api = []"
    and "String (PackageID channel) \<noteq> []"
    and "find (\<lambda>p. Package.ID p = String (PackageID channel)) (package_tbl (dbR api)) = Some pkg"
    and "ID channel \<in> set (ChannelsBlacklist pkg)"
  shows "AddChannel IsValid gen api channel =
           (if \<not> IsValid (Arch channel) then (Inl ErrInvalidArch, api)
            else if Package.ApplicationID pkg \<noteq> ApplicationID channel
              then (Inl ErrInvalidPackage, api)
            else if Package.Arch pkg \<noteq> Arch channel then (Inl ErrArchMismatch, api)
            else (Inl ErrBlacklistedChannel, api)) \<and>
         (\<forall>r \<in> set (channel_tbl (dbR api)). keyed (dbR api) \<and> row_id r = ID channel \<longrightarrow>
            UpdateChannel api channel =
              (if Package.ApplicationID pkg \<noteq> row_application_id r
                 then (Some ErrInvalidPackage, api)
               else if Package.Arch pkg \<noteq> row_arch r then (Some ErrArchMismatch, api)
               else (Some ErrBlacklistedChannel, api)))"
proof -
  have add: "AddChannel IsValid gen api channel =
      (if \<not> IsValid (Arch channel) then (Inl ErrInvalidArch, api)
       else if Package.ApplicationID pkg \<noteq> ApplicationID channel then (Inl ErrInvalidPackage, api)
       else if Package.Arch pkg \<noteq> Arch channel then (Inl ErrArchMismatch, api)
       else (Inl ErrBlacklistedChannel, api))"
    using assms(2,3,4) by (simp add: AddChannel_def validatePackage_calm [OF assms(1)])
  have upd: "UpdateChannel api channel =
      (if Package.ApplicationID pkg \<noteq> row_application_id r then (Some ErrInvalidPackage, api)
       else if Package.Arch pkg \<noteq> row_arch r then (Some ErrArchMismatch, api)
       else (Some ErrBlacklistedChannel, api))"
    if "r \<in> set (channel_tbl (dbR api))" "keyed (dbR api)" "row_id r = ID channel" for r
    using assms(2,3,4) by (simp add: UpdateChannel_calm [OF assms(1) that(2,1,3)])
  show ?thesis
    using add upd by blast
qed

theorem blacklisted_assignment_rejected_witness:
  "pending api0 = [] \<and> String (PackageID (chan ''c2'' ''beta'' (NullStringFrom ''p1''))) \<noteq> [] \<and>
   find (\<lambda>p. Package.ID p = String (PackageID (chan ''c2'' ''beta'' (NullStringFrom ''p1''))))
     (package_tbl (dbR api0)) = Some pkg1 \<and>
   ID (chan ''c2'' ''beta'' (NullStringFrom ''p1'')) \<in> set (ChannelsBlacklist pkg1) \<and>
   row2 \<in> set (channel_tbl (dbR api0)) \<and> keyed (dbR api0) \<and>
   AddChannel valid_arch (''c3'', 9) api0 (chan ''c2'' ''beta'' (NullStringFrom ''p1''))
     = (Inl ErrBlacklistedChannel, api0) \<and>
   UpdateChannel api0 (chan ''c2'' ''beta'' (NullStringFrom ''p1''))
     = (Some ErrBlacklistedChannel, api0)"
proof -
  let ?ch = "chan ''c2'' ''beta'' (NullStringFrom ''p1'')"
  have 1: "String (PackageID ?ch) \<noteq> []" by (simp add: chan_def NullStringFrom_def)
  have 2: "find (\<lambda>p. Package.ID p = String (PackageID ?ch)) (package_tbl (dbR api0)) = Some pkg1"
    by (simp add: chan_def NullStringFrom_def api0_find)
  have 3: "ID ?ch \<in> set (ChannelsBlacklist pkg1)" by (simp add: chan_def pkg1_def)
  have 4: "valid_arch (Arch ?ch)" "Package.ApplicationID pkg1 = ApplicationID ?ch"
    "Package.Arch pkg1 = Arch ?ch"
    by (simp_all add: chan_def pkg1_def valid_arch_def)
  have 5: "row_id row2 = ID ?ch" "Package.ApplicationID pkg1 = row_application_id row2"
    "Package.Arch pkg1 = row_arch row2"
    by (simp_all add: chan_def pkg1_def row2_def)
  note b = blacklisted_assignment_rejected [OF api0_pending 1 2 3, of valid_arch "(''c3'', 9)"]
  from b have "AddChannel valid_arch (''c3'', 9) api0 ?ch =
           (if \<not> valid_arch (Arch ?ch) then (Inl ErrInvalidArch, api0)
            else if Package.ApplicationID pkg1 \<noteq> ApplicationID ?ch
              then (Inl ErrInvalidPackage, api0)
            else if Package.Arch pkg1 \<noteq> Arch ?ch then (Inl ErrArchMismatch, api0)
            else (Inl ErrBlacklistedChannel, api0))"
    by (rule conjunct1)
  then have a: "AddChannel valid_arch (''c3'', 9) api0 ?ch = (Inl ErrBlacklistedChannel, api0)"
    using 4 by simp
  from b api0_rows(2) api0_keyed 5(1)
  have "UpdateChannel api0 ?ch =
              (if Package.ApplicationID pkg1 \<noteq> row_application_id row2
                 then (Some ErrInvalidPackage, api0)
               else if Package.Arch pkg1 \<noteq> row_arch row2 then (Some ErrArchMismatch, api0)
               else (Some ErrBlacklistedChannel, api0))"
    by blast
  then have "UpdateChannel api0 ?ch = (Some ErrBlacklistedChannel, api0)"
    using 5(2,3) by simp
  then show ?thesis using a 1 2 3 api0_pending api0_rows(2) api0_keyed by simp
qed

subsection \<open>The activity record of UpdateChannel\<close>

text \<open>
  C4, as the claim states it, fails: clearing the package of channel \<open>c1\<close> through
  \<open>UpdateChannel\<close> succeeds and changes the stored package pointer of the row from \<open>p1\<close> to
  null, and no activity record is written.
\<close>

theorem UpdateChannel_activity_counterexample:
  "fst (UpdateChannel api0 (chan ''c1'' ''stable'' null_string)) = None \<and>
   map row_package_id (channel_tbl (dbR api0)) = [Some ''p1'', None] \<and>
   map row_package_id
     (channel_tbl (dbR (snd (UpdateChannel api0 (chan ''c1'' ''stable'' null_string)))))
     = [None, None] \<and>
   activity_tbl (dbR (snd (UpdateChannel api0 (chan ''c1'' ''stable'' null_string))))
     = activity_tbl (dbR api0)"
  by (simp add: update_c1_null written_def api0_channels)
     (simp add: row1_def row2_def set_whitelist_def chan_def null_string_def to_column_def)

text \<open>
  C4, amended. In a run where the store is left alone and does not fail, take a stored
  channel and a supplied package reference that is null exactly when its string is empty.
  If \<open>UpdateChannel\<close> succeeds, the stored package pointer differs from the supplied one
  and the supplied one is not empty, then exactly one record is appended to the activity
  table: class \<open>activityChannelPackageUpdated\<close>, severity \<open>activityInfo\<close>, the version and
  application of the new package, and the channel. In every other case (the update
  fails, the pointer does not change, or the pointer is cleared) the activity table is
  left as it was.
\<close>

theorem UpdateChannel_activity:
  assumes "pending api = []" and "keyed (dbR api)"
    and "r \<in> set (channel_tbl (dbR api))" and "row_id r = ID channel"
    and "Valid (PackageID channel) \<longleftrightarrow> String (PackageID channel) \<noteq> []"
  shows "(fst (UpdateChannel api channel) = None \<and>
          row_package_id r \<noteq> to_column (PackageID channel) \<and>
          String (PackageID channel) \<noteq> [] \<longrightarrow>
            (\<exists>pkg. find (\<lambda>p. Package.ID p = String (PackageID channel)) (package_tbl (dbR api))
                      = Some pkg \<and>
               activity_tbl (dbR (snd (UpdateChannel api channel)))
                 = activity_tbl (dbR api) @ [package_updated pkg (ID channel)])) \<and>
         (fst (UpdateChannel api channel) \<noteq> None \<or>
          row_package_id r = to_column (PackageID channel) \<or>
          String (PackageID channel) = [] \<longrightarrow>
            activity_tbl (dbR (snd (UpdateChannel api channel))) = activity_tbl (dbR api))"
proof (cases "String (PackageID channel) = []")
  case True
  then show ?thesis
    by (simp add: UpdateChannel_calm [OF assms(1-4)] written_def)
next
  case False
  have c: "String (of_column (row_package_id r)) \<noteq> String (PackageID channel)
             \<longleftrightarrow> row_package_id r \<noteq> to_column (PackageID channel)"
    using False assms(5) by (cases "row_package_id r") (auto simp: of_column_def to_column_def)
  have u: "UpdateChannel api channel =
    (case find (\<lambda>p. Package.ID p = String (PackageID channel)) (package_tbl (dbR api)) of
        None \<Rightarrow> (Some ErrNotFound, api)
      | Some pkg \<Rightarrow>
          if Package.ApplicationID pkg \<noteq> row_application_id r then (Some ErrInvalidPackage, api)
          else if Package.Arch pkg \<noteq> row_arch r then (Some ErrArchMismatch, api)
          else if ID channel \<in> set (ChannelsBlacklist pkg) then (Some ErrBlacklistedChannel, api)
          else if row_package_id r \<noteq> to_column (PackageID channel)
            then (None, emitted (written api channel) (package_updated pkg (ID channel)))
          else (None, written api channel))"
    using False by (simp add: UpdateChannel_calm [OF assms(1-4)] c split: option.splits)
  show ?thesis
    using False
    by (cases "row_package_id r = to_column (PackageID channel)")
       (simp_all add: u written_def emitted_def split: option.splits)
qed

theorem UpdateChannel_activity_witness:
  "pending api0 = [] \<and> keyed (dbR api0) \<and> row2 \<in> set (channel_tbl (dbR api0)) \<and>
   row_id row2 = ID (chan ''c2'' ''beta'' (NullStringFrom ''p3'')) \<and>
   (Valid (PackageID (chan ''c2'' ''beta'' (NullStringFrom ''p3'')))
      \<longleftrightarrow> String (PackageID (chan ''c2'' ''beta'' (NullStringFrom ''p3''))) \<noteq> []) \<and>
   fst (UpdateChannel api0 (chan ''c2'' ''beta'' (NullStringFrom ''p3''))) = None \<and>
   row_package_id row2 \<noteq> to_column (PackageID (chan ''c2'' ''beta'' (NullStringFrom ''p3''))) \<and>
   activity_tbl (dbR (snd (UpdateChannel api0 (chan ''c2'' ''beta'' (NullStringFrom ''p3'')))))
     = activity_tbl (dbR api0) @ [package_updated pkg3 ''c2'']"
proof -
  let ?ch = "chan ''c2'' ''beta'' (NullStringFrom ''p3'')"
  have 1: "row_id row2 = ID ?ch" by (simp add: row2_def chan_def)
  have 2: "Valid (PackageID ?ch) \<longleftrightarrow> String (PackageID ?ch) \<noteq> []"
    by (simp add: chan_def NullStringFrom_def)
  have 3: "fst (UpdateChannel api0 ?ch) = None" by (simp add: update_c2_p3)
  have 4: "row_package_id row2 \<noteq> to_column (PackageID ?ch)"
    by (simp add: row2_def chan_def NullStringFrom_def to_column_def)
  have 5: "String (PackageID ?ch) \<noteq> []" by (simp add: chan_def NullStringFrom_def)
  from UpdateChannel_activity [OF api0_pending api0_keyed api0_rows(2) 1 2] 3 4 5
  obtain pkg where "find (\<lambda>p. Package.ID p = String (PackageID ?ch)) (package_tbl (dbR api0)) = Some pkg"
    "activity_tbl (dbR (snd (UpdateChannel api0 ?ch)))
       = activity_tbl (dbR api0) @ [package_updated pkg (ID ?ch)]"
    by blast
  then have "activity_tbl (dbR (snd (UpdateChannel api0 ?ch)))
       = activity_tbl (dbR api0) @ [package_updated pkg3 ''c2'']"
    by (simp add: chan_def NullStringFrom_def api0_find)
  then show ?thesis using 1 2 3 4 api0_pending api0_keyed api0_rows(2) by simp
qed

subsection \<open>No rows affected\<close>

text \<open>
  C7. When the delete statement of \<open>DeleteChannel\<close> runs without a store error on a table
  that has no row with the identifier, \<open>DeleteChannel\<close> returns \<open>ErrNoRowsAffected\<close> and
  the store is as the statement found it. When the reads of \<open>UpdateChannel\<close> succeed (the
  channel is found, and the package, if one is given, passes validation) and the update
  statement then runs without a store error on a table that has no row with the
  identifier any more, \<open>UpdateChannel\<close> returns \<open>ErrNoRowsAffected\<close>, the store is as the
  statement found it, and no activity record is written.
\<close>

theorem no_rows_affected:
  "(stmt api = (True, api') \<and> (\<forall>r \<in> set (channel_tbl (dbR api')). row_id r \<noteq> channelID)
      \<longrightarrow> DeleteChannel api channelID = (Some ErrNoRowsAffected, api')) \<and>
   (GetChannel api (ID channel) = (Inr before, api1) \<and>
    (String (PackageID channel) = [] \<and> api2 = api1 \<or>
     String (PackageID channel) \<noteq> [] \<and>
     validatePackage api1 (String (PackageID channel)) (ID channel)
       (ApplicationID before) (Arch before) = (Inr pkg, api2)) \<and>
    stmt api2 = (True, api3) \<and>
    (\<forall>r \<in> set (channel_tbl (dbR api3)). row_id r \<noteq> ID channel)
      \<longrightarrow> UpdateChannel api channel = (Some ErrNoRowsAffected, api3))"
proof (intro conjI impI)
  assume "stmt api = (True, api') \<and> (\<forall>r \<in> set (channel_tbl (dbR api')). row_id r \<noteq> channelID)"
  then show "DeleteChannel api channelID = (Some ErrNoRowsAffected, api')"
    by (simp add: DeleteChannel_def delete_channel_def filter_untouched no_match_length)
next
  assume a: "GetChannel api (ID channel) = (Inr before, api1) \<and>
    (String (PackageID channel) = [] \<and> api2 = api1 \<or>
     String (PackageID channel) \<noteq> [] \<and>
     validatePackage api1 (String (PackageID channel)) (ID channel)
       (ApplicationID before) (Arch before) = (Inr pkg, api2)) \<and>
    stmt api2 = (True, api3) \<and>
    (\<forall>r \<in> set (channel_tbl (dbR api3)). row_id r \<noteq> ID channel)"
  then have u: "update_channel api2 channel = (Inr 0, api3)"
    by (simp add: update_channel_def set_whitelist_untouched no_match_length)
  from a u show "UpdateChannel api channel = (Some ErrNoRowsAffected, api3)"
    by (auto simp: UpdateChannel_def)
qed

theorem no_rows_affected_witness:
  "stmt api0 = (True, api0) \<and> map row_id (channel_tbl (dbR api0)) = [''c1'', ''c2''] \<and>
   DeleteChannel api0 ''zz'' = (Some ErrNoRowsAffected, api0) \<and>
   GetChannel api_race ''c2''
     = (Inr (resolve db0 row2), api_race\<lparr>pending := [Interfere (other_session_deletes ''c2'')]\<rparr>) \<and>
   stmt (api_race\<lparr>pending := [Interfere (other_session_deletes ''c2'')]\<rparr>)
     = (True, \<lparr>dbR = other_session_deletes ''c2'' db0, pending = []\<rparr>) \<and>
   map row_id (channel_tbl (other_session_deletes ''c2'' db0)) = [''c1''] \<and>
   UpdateChannel api_race (chan ''c2'' ''beta'' null_string)
     = (Some ErrNoRowsAffected, \<lparr>dbR = other_session_deletes ''c2'' db0, pending = []\<rparr>)"
proof -
  let ?api1 = "api_race\<lparr>pending := [Interfere (other_session_deletes ''c2'')]\<rparr>"
  let ?api3 = "\<lparr>dbR = other_session_deletes ''c2'' db0, pending = []\<rparr>"
  let ?ch = "chan ''c2'' ''beta'' null_string"
  have d: "\<forall>r \<in> set (channel_tbl (dbR api0)). row_id r \<noteq> ''zz''"
    by (simp add: api0_channels row1_def row2_def)
  have s: "stmt api_race = (True, ?api1)"
    by (simp add: stmt_def api_race_def)
  have k: "distinct (map row_id (channel_tbl (dbR ?api1)))"
    by (simp add: api_race_def db0_def row1_def row2_def)
  have m: "row2 \<in> set (channel_tbl (dbR ?api1))"
    by (simp add: api_race_def db0_def)
  have g: "GetChannel api_race (ID ?ch) = (Inr (resolve db0 row2), ?api1)"
    using s k m channelsQuery_by_id [of "dbR ?api1" row2]
    by (simp add: GetChannel_def chan_def) (simp add: row2_def api_race_def)
  have e: "String (PackageID ?ch) = []" by (simp add: chan_def null_string_def)
  have t: "stmt ?api1 = (True, ?api3)"
    by (simp add: stmt_def api_race_def)
  have n: "\<forall>r \<in> set (channel_tbl (dbR ?api3)). row_id r \<noteq> ID ?ch"
    by (simp add: other_session_deletes_def chan_def)
  from no_rows_affected [where api = api0 and api' = api0 and channelID = "''zz''"]
  have x: "DeleteChannel api0 ''zz'' = (Some ErrNoRowsAffected, api0)"
    using stmt_api0 d by blast
  from no_rows_affected [where api = api_race and channel = ?ch
         and before = "resolve db0 row2" and ?api1.0 = ?api1 and ?api2.0 = ?api1
         and ?api3.0 = ?api3]
  have y: "UpdateChannel api_race ?ch = (Some ErrNoRowsAffected, ?api3)"
    using g e t n by blast
  from x y have "DeleteChannel api0 ''zz'' = (Some ErrNoRowsAffected, api0)"
    and "UpdateChannel api_race ?ch = (Some ErrNoRowsAffected, ?api3)"
    by simp_all
  moreover have "map row_id (channel_tbl (dbR api0)) = [''c1'', ''c2'']"
    by (simp add: api0_channels row1_def row2_def)
  moreover have "map row_id (channel_tbl (other_session_deletes ''c2'' db0)) = [''c1'']"
    by (simp add: other_session_deletes_def db0_def row1_def row2_def)
  ultimately show ?thesis
    using stmt_api0 g t by (simp add: chan_def)
qed

text \<open>
  When the row is already missing as \<open>UpdateChannel\<close> starts, its first statement, the
  query of \<open>GetChannel\<close>, reports that no row was found, and that error is returned.
\<close>

lemma UpdateChannel_missing_row:
  "pending api = [] \<Longrightarrow> \<forall>r \<in> set (channel_tbl (dbR api)). row_id r \<noteq> ID channel \<Longrightarrow>
   UpdateChannel api channel = (Some ErrNotFound, api)"
  by (simp add: UpdateChannel_def GetChannel_calm_missing)

subsection \<open>What UpdateChannel writes\<close>

text \<open>
  C8. In a run without commits of other sessions, after any call of \<open>UpdateChannel\<close>,
  successful or failed, the identifier, application, architecture and creation time of
  every stored channel row are what they were, and the rows with another identifier are
  untouched: only name, colour and package reference of the row with the identifier are
  written. The application, architecture, creation time and embedded package of the
  struct supplied by the caller have no effect at all on the call (this holds in every
  run). When a keyed store accepts a non-empty package reference, the package has the
  application and the architecture of the stored row.
\<close>

theorem UpdateChannel_frame:
  assumes "quiet api"
  shows "map frame (channel_tbl (dbR (snd (UpdateChannel api channel))))
           = map frame (channel_tbl (dbR api)) \<and>
         filter (\<lambda>r. row_id r \<noteq> ID channel) (channel_tbl (dbR (snd (UpdateChannel api channel))))
           = filter (\<lambda>r. row_id r \<noteq> ID channel) (channel_tbl (dbR api)) \<and>
         UpdateChannel api (channel\<lparr>ApplicationID := a, Arch := b, CreatedTs := t, Package := p\<rparr>)
           = UpdateChannel api channel \<and>
         (\<forall>r \<in> set (channel_tbl (dbR api)).
            keyed (dbR api) \<and> row_id r = ID channel \<and> String (PackageID channel) \<noteq> [] \<and>
            fst (UpdateChannel api channel) = None \<longrightarrow>
            (\<exists>pkg. find (\<lambda>p. Package.ID p = String (PackageID channel)) (package_tbl (dbR api))
                      = Some pkg \<and>
               Package.ApplicationID pkg = row_application_id r \<and>
               Package.Arch pkg = row_arch r))"
proof -
  let ?d = "dbR api" and ?d' = "dbR (snd (UpdateChannel api channel))"
  from UpdateChannel_quiet [OF assms, of channel]
  have c: "channel_tbl ?d' = channel_tbl ?d \<or>
           channel_tbl ?d' = map (set_whitelist channel) (channel_tbl ?d)"
    by auto
  have 1: "map frame (channel_tbl ?d') = map frame (channel_tbl ?d)"
    using c by (auto simp: o_def frame_set_whitelist)
  have 2: "filter (\<lambda>r. row_id r \<noteq> ID channel) (channel_tbl ?d')
           = filter (\<lambda>r. row_id r \<noteq> ID channel) (channel_tbl ?d)"
    using c by (auto simp: others_set_whitelist)
  have 3: "\<exists>pkg. find (\<lambda>p. Package.ID p = String (PackageID channel)) (package_tbl ?d) = Some pkg \<and>
               Package.ApplicationID pkg = row_application_id r \<and> Package.Arch pkg = row_arch r"
    if "r \<in> set (channel_tbl ?d)" "keyed ?d" "row_id r = ID channel"
       "String (PackageID channel) \<noteq> []" "fst (UpdateChannel api channel) = None" for r
  proof -
    from UpdateChannel_quiet [OF assms, of channel] that(4,5)
    obtain r' pkg where r': "r' \<in> set (channel_tbl ?d)" "row_id r' = ID channel"
      "find (\<lambda>p. Package.ID p = String (PackageID channel)) (package_tbl ?d) = Some pkg"
      "Package.ApplicationID pkg = row_application_id r'" "Package.Arch pkg = row_arch r'"
      by auto
    have "r' = r"
      using distinct_same_key [of row_id "channel_tbl ?d" r' r] that(1,2,3) r'(1,2)
      by (simp add: keyed_def)
    then show ?thesis using r' by auto
  qed
  show ?thesis using 1 2 3 UpdateChannel_supplied by blast
qed

theorem UpdateChannel_frame_witness:
  "quiet api0 \<and> row2 \<in> set (channel_tbl (dbR api0)) \<and> keyed (dbR api0) \<and>
   row_id row2 = ID (chan ''c2'' ''beta'' (NullStringFrom ''p3'')) \<and>
   String (PackageID (chan ''c2'' ''beta'' (NullStringFrom ''p3''))) \<noteq> [] \<and>
   fst (UpdateChannel api0 (chan ''c2'' ''beta'' (NullStringFrom ''p3''))) = None \<and>
   map frame (channel_tbl (dbR (snd (UpdateChannel api0 (chan ''c2'' ''beta'' (NullStringFrom ''p3''))))))
     = map frame (channel_tbl (dbR api0)) \<and>
   UpdateChannel api0 ((chan ''c2'' ''beta'' (NullStringFrom ''p3''))
       \<lparr>ApplicationID := ''other'', Arch := 9, CreatedTs := 77, Package := Some pkg2\<rparr>)
     = UpdateChannel api0 (chan ''c2'' ''beta'' (NullStringFrom ''p3'')) \<and>
   (\<exists>pkg. find (\<lambda>p. Package.ID p = ''p3'') (package_tbl (dbR api0)) = Some pkg \<and>
      Package.ApplicationID pkg = row_application_id row2 \<and> Package.Arch pkg = row_arch row2)"
proof -
  let ?ch = "chan ''c2'' ''beta'' (NullStringFrom ''p3'')"
  have 1: "row_id row2 = ID ?ch" by (simp add: row2_def chan_def)
  have 2: "String (PackageID ?ch) \<noteq> []" by (simp add: chan_def NullStringFrom_def)
  have 3: "fst (UpdateChannel api0 ?ch) = None" by (simp add: update_c2_p3)
  have 4: "String (PackageID ?ch) = ''p3''" by (simp add: chan_def NullStringFrom_def)
  note f = UpdateChannel_frame [OF api0_quiet, where channel = ?ch and a = "''other''"
      and b = 9 and t = 77 and p = "Some pkg2"]
  from f have a: "map frame (channel_tbl (dbR (snd (UpdateChannel api0 ?ch))))
     = map frame (channel_tbl (dbR api0))" by blast
  from f have b: "UpdateChannel api0 (?ch\<lparr>ApplicationID := ''other'', Arch := 9, CreatedTs := 77,
       Package := Some pkg2\<rparr>) = UpdateChannel api0 ?ch" by blast
  from f api0_rows(2) api0_keyed 1 2 3
  have "\<exists>pkg. find (\<lambda>p. Package.ID p = String (PackageID ?ch)) (package_tbl (dbR api0)) = Some pkg \<and>
      Package.ApplicationID pkg = row_application_id row2 \<and> Package.Arch pkg = row_arch row2"
    by blast
  then have c: "\<exists>pkg. find (\<lambda>p. Package.ID p = ''p3'') (package_tbl (dbR api0)) = Some pkg \<and>
      Package.ApplicationID pkg = row_application_id row2 \<and> Package.Arch pkg = row_arch row2"
    by (simp only: 4)
  show ?thesis
    using a b c 1 2 3 api0_quiet api0_rows(2) api0_keyed by blast
qed

subsection \<open>Clearing the package of a channel\<close>

text \<open>
  C9. In a run without commits of other sessions in which the first two statements do
  not fail, \<open>UpdateChannel\<close> with an empty package reference on a stored channel succeeds.
  It issues exactly two statements, the query of \<open>GetChannel\<close> and the update: the rest of
  the script is still pending afterwards, so no package was looked up for validation and
  no activity record was inserted. The channel rows are written, the package table and
  the activity table are as before, also when the stored package pointer changes.
\<close>

theorem UpdateChannel_clear:
  assumes "quiet api" and "\<not> faulty (pending api)" and "\<not> faulty (tl (pending api))"
    and "r \<in> set (channel_tbl (dbR api))" and "row_id r = ID channel"
    and "String (PackageID channel) = []"
  shows "fst (UpdateChannel api channel) = None \<and>
         pending (snd (UpdateChannel api channel)) = tl (tl (pending api)) \<and>
         channel_tbl (dbR (snd (UpdateChannel api channel)))
           = map (set_whitelist channel) (channel_tbl (dbR api)) \<and>
         package_tbl (dbR (snd (UpdateChannel api channel))) = package_tbl (dbR api) \<and>
         activity_tbl (dbR (snd (UpdateChannel api channel))) = activity_tbl (dbR api)"
proof -
  obtain c where g: "GetChannel api (ID channel) = (Inr c, nxt api)"
    using GetChannel_found_quiet [OF assms(1,2,4)] assms(5) by auto
  have q: "quiet (nxt api)" using assms(1) by (rule quiet_nxt)
  have f: "\<not> faulty (pending (nxt api))" using assms(3) by (simp add: nxt_def)
  have n: "length (filter (\<lambda>x. row_id x = ID channel) (channel_tbl (dbR api))) \<noteq> 0"
    using assms(4,5) by (auto simp: filter_empty_conv)
  show ?thesis
    using assms(6) n f
    by (simp add: UpdateChannel_def g update_channel_quiet [OF q] dbR_nxt) (simp add: nxt_def)
qed

theorem UpdateChannel_clear_witness:
  "quiet api_script \<and> \<not> faulty (pending api_script) \<and> \<not> faulty (tl (pending api_script)) \<and>
   row1 \<in> set (channel_tbl (dbR api_script)) \<and>
   row_id row1 = ID (chan ''c1'' ''stable'' null_string) \<and>
   String (PackageID (chan ''c1'' ''stable'' null_string)) = [] \<and>
   row_package_id row1 \<noteq> to_column (PackageID (chan ''c1'' ''stable'' null_string)) \<and>
   fst (UpdateChannel api_script (chan ''c1'' ''stable'' null_string)) = None \<and>
   pending (snd (UpdateChannel api_script (chan ''c1'' ''stable'' null_string))) = [Fault] \<and>
   map row_package_id
     (channel_tbl (dbR (snd (UpdateChannel api_script (chan ''c1'' ''stable'' null_string)))))
     = [None, None] \<and>
   activity_tbl (dbR (snd (UpdateChannel api_script (chan ''c1'' ''stable'' null_string)))) = []"
proof -
  let ?ch = "chan ''c1'' ''stable'' null_string"
  have 1: "quiet api_script" by (simp add: quiet_def api_script_def)
  have 2: "\<not> faulty (pending api_script)" by (simp add: api_script_def)
  have 3: "\<not> faulty (tl (pending api_script))" by (simp add: api_script_def)
  have 4: "row1 \<in> set (channel_tbl (dbR api_script))" by (simp add: api_script_def db0_def)
  have 5: "row_id row1 = ID ?ch" by (simp add: row1_def chan_def)
  have 6: "String (PackageID ?ch) = []" by (simp add: chan_def null_string_def)
  have 7: "row_package_id row1 \<noteq> to_column (PackageID ?ch)"
    by (simp add: row1_def chan_def null_string_def to_column_def)
  from UpdateChannel_clear [OF 1 2 3 4 5 6]
  have "fst (UpdateChannel api_script ?ch) = None"
    and "pending (snd (UpdateChannel api_script ?ch)) = [Fault]"
    and "map row_package_id (channel_tbl (dbR (snd (UpdateChannel api_script ?ch)))) = [None, None]"
    and "activity_tbl (dbR (snd (UpdateChannel api_script ?ch))) = []"
    by (simp_all add: api_script_def db0_def row1_def row2_def set_whitelist_def chan_def
          null_string_def to_column_def)
  then show ?thesis using 1 2 3 4 5 6 7 by simp
qed

subsection \<open>Listing channels\<close>

text \<open>
  C10. When the query runs, \<open>GetChannels\<close> returns a page of the channels of the
  application: the channels whose row has the application identifier, each once, sorted
  by name in ascending order, cut by \<open>Paginate\<close> at the page and page size that
  \<open>validatePaginationParams\<close> returns for the caller's values; the page is sorted by name
  too. \<open>getSpecificChannels\<close> returns the channels whose identifier is among the given
  ones, each once, sorted by name in ascending order.
\<close>

theorem channels_sorted_by_name:
  assumes "stmt api = (True, api')"
  shows "(\<exists>matching.
            sorted (map Name matching) \<and>
            set matching = resolve (dbR api') `
               {r \<in> set (channel_tbl (dbR api')). row_application_id r = appID} \<and>
            length matching
              = length (filter (\<lambda>r. row_application_id r = appID) (channel_tbl (dbR api'))) \<and>
            GetChannels validatePaginationParams api appID page perPage
              = (Inr (Paginate (fst (validatePaginationParams (page, perPage)))
                        (snd (validatePaginationParams (page, perPage))) matching), api') \<and>
            sorted (map Name (Paginate (fst (validatePaginationParams (page, perPage)))
                        (snd (validatePaginationParams (page, perPage))) matching))) \<and>
         (\<exists>specific.
            sorted (map Name specific) \<and>
            set specific = resolve (dbR api') `
               {r \<in> set (channel_tbl (dbR api')). row_id r \<in> set channelID} \<and>
            length specific
              = length (filter (\<lambda>r. row_id r \<in> set channelID) (channel_tbl (dbR api'))) \<and>
            getSpecificChannels api channelID = (Inr specific, api'))"
proof -
  let ?d = "dbR api'"
  let ?m = "filter (\<lambda>c. ApplicationID c = appID) (channelsQuery ?d)"
  let ?s = "filter (\<lambda>c. ID c \<in> set channelID) (channelsQuery ?d)"
  have m: "?m = map (resolve ?d) (sort_key row_name
             (filter (\<lambda>r. row_application_id r = appID) (channel_tbl ?d)))"
    using filter_channelsQuery [of "\<lambda>i a. a = appID" ?d] by simp
  have s: "?s = map (resolve ?d) (sort_key row_name
             (filter (\<lambda>r. row_id r \<in> set channelID) (channel_tbl ?d)))"
    using filter_channelsQuery [of "\<lambda>i a. i \<in> set channelID" ?d] by simp
  have sm: "sorted (map Name ?m)" unfolding m Name_resolve by simp
  have ss: "sorted (map Name ?s)" unfolding s Name_resolve by simp
  have 1: "set ?m = resolve ?d ` {r \<in> set (channel_tbl ?d). row_application_id r = appID}"
    unfolding m by auto
  have 2: "set ?s = resolve ?d ` {r \<in> set (channel_tbl ?d). row_id r \<in> set channelID}"
    unfolding s by auto
  have 3: "length ?m = length (filter (\<lambda>r. row_application_id r = appID) (channel_tbl ?d))"
    unfolding m by simp
  have 4: "length ?s = length (filter (\<lambda>r. row_id r \<in> set channelID) (channel_tbl ?d))"
    unfolding s by simp
  have g: "GetChannels validatePaginationParams api appID page perPage
              = (Inr (Paginate (fst (validatePaginationParams (page, perPage)))
                        (snd (validatePaginationParams (page, perPage))) ?m), api')"
    using assms by (simp add: GetChannels_def split: prod.splits)
  have h: "getSpecificChannels api channelID = (Inr ?s, api')"
    using assms by (simp add: getSpecificChannels_def)
  from sm 1 3 g sorted_page [OF sm] have A: "\<exists>matching.
            sorted (map Name matching) \<and>
            set matching = resolve (dbR api') `
               {r \<in> set (channel_tbl (dbR api')). row_application_id r = appID} \<and>
            length matching
              = length (filter (\<lambda>r. row_application_id r = appID) (channel_tbl (dbR api'))) \<and>
            GetChannels validatePaginationParams api appID page perPage
              = (Inr (Paginate (fst (validatePaginationParams (page, perPage)))
                        (snd (validatePaginationParams (page, perPage))) matching), api') \<and>
            sorted (map Name (Paginate (fst (validatePaginationParams (page, perPage)))
                        (snd (validatePaginationParams (page, perPage))) matching))"
    by blast
  from ss 2 4 h have B: "\<exists>specific.
            sorted (map Name specific) \<and>
            set specific = resolve (dbR api') `
               {r \<in> set (channel_tbl (dbR api')). row_id r \<in> set channelID} \<and>
            length specific
              = length (filter (\<lambda>r. row_id r \<in> set channelID) (channel_tbl (dbR api'))) \<and>
            getSpecificChannels api channelID = (Inr specific, api')"
    by blast
  from A B show ?thesis by blast
qed

theorem channels_sorted_by_name_witness:
  "stmt api0 = (True, api0) \<and>
   (\<exists>matching. sorted (map Name matching) \<and> length matching = 2 \<and>
      GetChannels id api0 ''app'' 1 10 = (Inr (Paginate 1 10 matching), api0)) \<and>
   (\<exists>specific. sorted (map Name specific) \<and> length specific = 1 \<and>
      getSpecificChannels api0 [''c2'', ''c9''] = (Inr specific, api0))"
proof -
  note c = channels_sorted_by_name [OF stmt_api0, where appID = "''app''"
      and validatePaginationParams = id and page = 1 and perPage = 10
      and channelID = "[''c2'', ''c9'']"]
  from c obtain matching where m: "sorted (map Name matching)"
    "length matching
       = length (filter (\<lambda>r. row_application_id r = ''app'') (channel_tbl (dbR api0)))"
    "GetChannels id api0 ''app'' 1 10 = (Inr (Paginate 1 10 matching), api0)"
    by auto
  from c obtain specific where s: "sorted (map Name specific)"
    "length specific
       = length (filter (\<lambda>r. row_id r \<in> set [''c2'', ''c9'']) (channel_tbl (dbR api0)))"
    "getSpecificChannels api0 [''c2'', ''c9''] = (Inr specific, api0)"
    by auto
  have "length matching = 2"
    using m(2) by (simp add: api0_channels row1_def row2_def)
  moreover have "length specific = 1"
    using s(2) by (simp add: api0_channels row1_def row2_def)
  ultimately show ?thesis
    using stmt_api0 m(1,3) s(1,3) by blast
qed

end
